theory Spec2Isabelle
  imports Main
begin

section \<open>Python values, exceptions and effects\<close>

text \<open>
  The renderer of \<^verbatim>\<open>rest_polymorphic/renderers.py\<close> is glue around objects of the
  host framework. Serializers are mutable objects, so they are modelled as references
  into a world \<open>'w\<close> (the state of every object reachable from the call), and each
  operation the renderer invokes on them takes the world and returns either the
  exception it raised (\<open>Inl\<close>) or its value with the world it left (\<open>Inr\<close>).
\<close>

datatype pyval = PyNone | PyBool bool | PyInt int | PyStr string

text \<open>A dict with string keys, in insertion order (\<^verbatim>\<open>serializer.data\<close>, a payload).\<close>

type_synonym pydict = "(string \<times> pyval) list"

datatype exn =
    ValidationError "(string \<times> string) list"
  | KeyError string
  | AssertionError string
  | ImproperlyConfigured string
  | OtherError string

type_synonym ref = nat

type_synonym html = string

text \<open>A model class, the key type of \<^verbatim>\<open>model_serializer_mapping\<close>; \<open>py_name\<close> is
  its \<^verbatim>\<open>__name__\<close>. Two classes of different modules may share a name.\<close>

datatype model = Model (py_module: string) (py_name: string)

text \<open>What reading the attribute \<^verbatim>\<open>model_serializer_mapping\<close> of an object finds: no
  such attribute, the value \<^verbatim>\<open>None\<close>, or a dict from model classes to serializers
  (its items in the dict's order).\<close>

datatype mapping_attr = NoAttr | AttrNone | AttrDict "(model \<times> ref) list"

type_synonym ('a, 'w) action = "'w \<Rightarrow> exn + 'a \<times> 'w"

definition and_then :: "('a, 'w) action \<Rightarrow> ('a \<Rightarrow> ('b, 'w) action) \<Rightarrow> ('b, 'w) action" where
  "and_then m f = (\<lambda>w. case m w of Inl e \<Rightarrow> Inl e | Inr (x, w') \<Rightarrow> f x w')"

definition return :: "'a \<Rightarrow> ('a, 'w) action" where
  "return x = (\<lambda>w. Inr (x, w))"

section \<open>The collaborators of the renderer\<close>

text \<open>
  The operations \<^verbatim>\<open>PolymorphicRenderer\<close> calls and does not define: attribute reads on
  the serializer, \<^verbatim>\<open>is_valid()\<close>, the \<^verbatim>\<open>data\<close> property, the two resolution
  methods of the polymorphic serializer, and the two methods of the base class
  \<^verbatim>\<open>BrowsableAPIRenderer\<close> reached through \<^verbatim>\<open>super()\<close>. They are parameters:
  every theorem below holds for all of them.
\<close>

record 'w host =
  attr_model_serializer_mapping :: "ref \<Rightarrow> 'w \<Rightarrow> mapping_attr"
  hasattr_initial_data :: "ref \<Rightarrow> 'w \<Rightarrow> bool"
  is_valid :: "ref \<Rightarrow> (bool, 'w) action"
  data :: "ref \<Rightarrow> (pydict, 'w) action"
  get_resource_type_from_mapping :: "ref \<Rightarrow> pydict \<Rightarrow> (pyval, 'w) action"
  get_serializer_from_resource_type :: "ref \<Rightarrow> pyval \<Rightarrow> (ref, 'w) action"
  super_render_form_for_serializer :: "ref \<Rightarrow> (html, 'w) action"

section \<open>\<^verbatim>\<open>PolymorphicRenderer.render_form_for_serializer\<close>\<close>

text \<open>The two shapes of the return value: what the base class rendered (a string),
  or the tuple of \<^verbatim>\<open>(model.__name__, form)\<close> pairs built at lines 25-31.\<close>

datatype rendered = SingleForm html | FormTuple "(string \<times> html) list"

text \<open>Line 8: \<^verbatim>\<open>getattr(serializer, 'model_serializer_mapping', None)\<close>. A missing
  attribute and the value \<^verbatim>\<open>None\<close> both give \<^verbatim>\<open>None\<close>.\<close>

definition getattr_mapping :: "'w host \<Rightarrow> ref \<Rightarrow> 'w \<Rightarrow> (model \<times> ref) list option" where
  "getattr_mapping h s w =
     (case attr_model_serializer_mapping h s w of
        NoAttr \<Rightarrow> None
      | AttrNone \<Rightarrow> None
      | AttrDict d \<Rightarrow> Some d)"

text \<open>Lines 12-13: \<^verbatim>\<open>if hasattr(serializer, 'initial_data'): serializer.is_valid()\<close>.
  The boolean \<^verbatim>\<open>is_valid\<close> returns is dropped; its effect on the world stays.\<close>

definition force_validation :: "'w host \<Rightarrow> ref \<Rightarrow> (unit, 'w) action" where
  "force_validation h s =
     (\<lambda>w. if hasattr_initial_data h s w
          then and_then (is_valid h s) (\<lambda>_. return ()) w
          else return () w)"

text \<open>Lines 21 and 33: the call of the base class's method, whose string is the
  return value.\<close>

definition render_super :: "'w host \<Rightarrow> ref \<Rightarrow> (rendered, 'w) action" where
  "render_super h s =
     and_then (super_render_form_for_serializer h s) (\<lambda>form.
     return (SingleForm form))"

text \<open>Lines 19-21: the serializer has data, so the form of the serializer of that
  data's resource type is rendered by the base class. \<^verbatim>\<open>serializer.data\<close> is read
  again at line 19.\<close>

definition render_bound :: "'w host \<Rightarrow> ref \<Rightarrow> (rendered, 'w) action" where
  "render_bound h s =
     and_then (data h s) (\<lambda>d.
     and_then (get_resource_type_from_mapping h s d) (\<lambda>resource_type.
     and_then (get_serializer_from_resource_type h s resource_type) (\<lambda>child_serializer.
     render_super h child_serializer)))"

text \<open>Lines 25-31: the generator over \<^verbatim>\<open>mapping.items()\<close>, consumed by \<^verbatim>\<open>tuple\<close>:
  one pair per item, in the dict's order; an exception of the base class ends it.\<close>

fun render_children :: "'w host \<Rightarrow> (model \<times> ref) list \<Rightarrow> ((string \<times> html) list, 'w) action" where
  "render_children h [] = return []"
| "render_children h ((m, c) # items) =
     and_then (super_render_form_for_serializer h c) (\<lambda>form.
     and_then (render_children h items) (\<lambda>forms.
     return ((py_name m, form) # forms)))"

text \<open>Lines 7-33. \<^verbatim>\<open>if mapping:\<close> at line 10 is false for \<^verbatim>\<open>None\<close> and for the
  empty dict; \<^verbatim>\<open>if serializer.data:\<close> at line 15 is false for the empty dict.\<close>

definition render_form_for_serializer :: "'w host \<Rightarrow> ref \<Rightarrow> (rendered, 'w) action" where
  "render_form_for_serializer h s =
     (\<lambda>w. case getattr_mapping h s w of
        None \<Rightarrow> render_super h s w
      | Some mapping \<Rightarrow>
          if mapping \<noteq> [] then
            and_then (force_validation h s) (\<lambda>_.
            and_then (data h s) (\<lambda>d.
              if d \<noteq> [] then render_bound h s
              else and_then (render_children h mapping) (\<lambda>forms.
                   return (FormTuple forms)))) w
          else render_super h s w)"

section \<open>\<^verbatim>\<open>PolymorphicRenderer.get_context\<close>\<close>

text \<open>The values of the template context: \<^verbatim>\<open>post_form\<close> is \<^verbatim>\<open>None\<close>, a boolean or
  what \<^verbatim>\<open>render_form_for_serializer\<close> returned; the other entries are opaque.\<close>

datatype ctxval = CNone | CBool bool | CForm rendered | COpaque string

type_synonym template_context = "string \<rightharpoonup> ctxval"

text \<open>\<^verbatim>\<open>isinstance(v, tuple)\<close>.\<close>

fun isinstance_tuple :: "ctxval \<Rightarrow> bool" where
  "isinstance_tuple (CForm (FormTuple fs)) = True"
| "isinstance_tuple v = False"

text \<open>Lines 37-40. The base class's \<^verbatim>\<open>get_context\<close> is the parameter \<open>super_get_context\<close>,
  called with the arguments unchanged; \<^verbatim>\<open>ctx['post_form']\<close> raises \<^verbatim>\<open>KeyError\<close>
  on a context without that key.\<close>

definition get_context :: "('a \<Rightarrow> (template_context, 'w) action) \<Rightarrow> 'a \<Rightarrow> (template_context, 'w) action" where
  "get_context super_get_context args =
     and_then (super_get_context args) (\<lambda>ctx.
       case ctx ''post_form'' of
         None \<Rightarrow> (\<lambda>w. Inl (KeyError ''post_form''))
       | Some post_form \<Rightarrow>
           return (ctx(''is_polymorphic'' \<mapsto> CBool (isinstance_tuple post_form))))"

section \<open>The blog example of the test suite\<close>

text \<open>
  A concrete world for the tests of \<^verbatim>\<open>tests/test_serializers.py\<close>: serializer 0 is a
  \<^verbatim>\<open>BlogPolymorphicSerializer\<close> over the models \<^verbatim>\<open>BlogBase\<close>, \<^verbatim>\<open>BlogOne\<close> and
  \<^verbatim>\<open>BlogTwo\<close>, whose serializers are 1, 2 and 3; serializer 4 carries an empty
  \<^verbatim>\<open>model_serializer_mapping\<close>; every other serializer has no such attribute. The
  world is the trace of the calls made so far.
\<close>

datatype event = Validated ref | DataRead ref | Rendered ref

definition blog_mapping :: "(model \<times> ref) list" where
  "blog_mapping =
     [(Model ''tests.models'' ''BlogBase'', 1),
      (Model ''tests.models'' ''BlogOne'', 2),
      (Model ''tests.models'' ''BlogTwo'', 3)]"

definition blog_form :: "ref \<Rightarrow> html" where
  "blog_form c =
     (if c = 1 then ''<input name=name><input name=slug>''
      else if c = 2 then ''<input name=name><input name=slug><input name=info>''
      else if c = 3 then ''<input name=name><input name=slug>''
      else ''<form>'')"

text \<open>The two resolution methods of the example follow the spec's description of the
  polymorphic serializer: a missing discriminator and a discriminator that names no
  registered model are validation errors on the discriminator field.\<close>

definition blog_resource_type :: "pydict \<Rightarrow> exn + pyval" where
  "blog_resource_type d =
     (case map_of d ''resourcetype'' of
        None \<Rightarrow> Inl (ValidationError [(''resourcetype'', ''This field is required'')])
      | Some v \<Rightarrow> Inr v)"

definition blog_serializer :: "pyval \<Rightarrow> exn + ref" where
  "blog_serializer v =
     (case find (\<lambda>(m, c). PyStr (py_name m) = v) blog_mapping of
        None \<Rightarrow> Inl (ValidationError [(''resourcetype'', ''Invalid resourcetype'')])
      | Some (m, c) \<Rightarrow> Inr c)"

text \<open>\<open>posted\<close>: serializer 0 was built from raw input data alone, as
  \<^verbatim>\<open>BlogPolymorphicSerializer(data=...)\<close> in \<^verbatim>\<open>test_deserialize\<close>, with no instance;
  \<open>d\<close> is then the data it produces once validated, empty when the input is not valid.
  Not \<open>posted\<close>: \<open>d\<close> is the representation of the instance serializer 0 is bound to,
  empty when there is none. As in the host framework, reading \<^verbatim>\<open>data\<close> of a
  serializer with raw input before \<^verbatim>\<open>is_valid()\<close> is an assertion error.\<close>

definition blog_host :: "bool \<Rightarrow> pydict \<Rightarrow> event list host" where
  "blog_host posted d =
     \<lparr> attr_model_serializer_mapping =
         (\<lambda>s w. if s = 0 then AttrDict blog_mapping
                else if s = 4 then AttrDict [] else NoAttr),
       hasattr_initial_data = (\<lambda>s w. s = 0 \<and> posted),
       is_valid = (\<lambda>s w. Inr (d \<noteq> [], w @ [Validated s])),
       data = (\<lambda>s w.
         if s = 0 \<and> posted \<and> Validated 0 \<notin> set w
         then Inl (AssertionError ''call is_valid before data'')
         else Inr (if s = 0 then d else [], w @ [DataRead s])),
       get_resource_type_from_mapping =
         (\<lambda>s d w. map_sum id (\<lambda>v. (v, w)) (blog_resource_type d)),
       get_serializer_from_resource_type =
         (\<lambda>s v w. map_sum id (\<lambda>c. (c, w)) (blog_serializer v)),
       super_render_form_for_serializer = (\<lambda>s w. Inr (blog_form s, w @ [Rendered s])) \<rparr>"

text \<open>The base class's context of a page whose POST form is the tuple of the three
  blog forms, and of a page whose POST form is a single form.\<close>

definition blog_forms :: "(string \<times> html) list" where
  "blog_forms =
     [(''BlogBase'', blog_form 1), (''BlogOne'', blog_form 2), (''BlogTwo'', blog_form 3)]"

definition blog_context :: "rendered \<Rightarrow> unit \<Rightarrow> (template_context, event list) action" where
  "blog_context form args =
     return [''name'' \<mapsto> COpaque ''Blog List'', ''post_form'' \<mapsto> CForm form,
             ''put_form'' \<mapsto> CNone]"

section \<open>The polymorphic dispatcher\<close>

text \<open>
  Modelled from the spec: the data of the polymorphic dispatcher. Its module,
  \<^verbatim>\<open>rest_polymorphic/serializers.py\<close>, is not among the sources; only its tests are.
  A handler is the per-subtype serializer of the registry; an instance carries the names
  of the types of its class hierarchy, most derived first, and its field values.
\<close>

datatype field_error = Required | NoMatchingHandler pyval | HandlerError string

type_synonym errors = "(string \<times> field_error list) list"

datatype validation = Valid pydict | Invalid errors

record py_instance =
  inst_mro :: "string list"
  inst_values :: pydict

record handler =
  to_representation :: "py_instance \<Rightarrow> exn + pydict"
  run_validation :: "pydict \<Rightarrow> exn + validation"

record dispatcher =
  registry :: "(string \<times> handler) list"
  resource_type_field_name :: string

text \<open>The two messages, as \<^verbatim>\<open>test_model_serializer_mapping_is_none\<close> and
  \<^verbatim>\<open>test_resource_type_field_name_is_not_string\<close> expect them.\<close>

definition missing_mapping_message :: "string \<Rightarrow> string" where
  "missing_mapping_message cls =
     ''`'' @ cls @ ''` is missing a `'' @ cls @ ''.model_serializer_mapping` attribute''"

definition not_string_message :: "string \<Rightarrow> string" where
  "not_string_message cls = ''`'' @ cls @ ''.resource_type_field_name` must be a string''"

text \<open>
  Modelled from the spec: construction of a dispatcher (the constructor is in the
  missing \<^verbatim>\<open>serializers.py\<close>). "Fails at construction with a configuration
  error if the registry is absent/empty, or if the discriminator field name is not a
  string"; the field name is optional and defaults to \<^verbatim>\<open>resourcetype\<close>. \<open>cls\<close> is the
  name of the class being constructed.
\<close>

definition construct ::
  "string \<Rightarrow> (string \<times> handler) list option \<Rightarrow> pyval option \<Rightarrow> exn + dispatcher" where
  "construct cls reg fld =
     (case reg of
        None \<Rightarrow> Inl (ImproperlyConfigured (missing_mapping_message cls))
      | Some [] \<Rightarrow> Inl (ImproperlyConfigured (missing_mapping_message cls))
      | Some (entry # entries) \<Rightarrow>
          (case fld of
             None \<Rightarrow>
               Inr \<lparr>registry = entry # entries, resource_type_field_name = ''resourcetype''\<rparr>
           | Some (PyStr f) \<Rightarrow>
               Inr \<lparr>registry = entry # entries, resource_type_field_name = f\<rparr>
           | Some _ \<Rightarrow> Inl (ImproperlyConfigured (not_string_message cls))))"


text \<open>\<^verbatim>\<open>d[k] = v\<close> on a dict in insertion order.\<close>

fun dict_set :: "pydict \<Rightarrow> string \<Rightarrow> pyval \<Rightarrow> pydict" where
  "dict_set [] k v = [(k, v)]"
| "dict_set ((k', v') # d) k v =
     (if k' = k then (k, v) # d else (k', v') # dict_set d k v)"


text \<open>
  Modelled from the spec: the lookup of a discriminator value in the registry (missing
  \<^verbatim>\<open>serializers.py\<close>). The keys of the registry are strings, so no other value has a
  handler.
\<close>

fun lookup_handler :: "(string \<times> handler) list \<Rightarrow> pyval \<Rightarrow> (string \<times> handler) option" where
  "lookup_handler reg (PyStr n) = map_option (Pair n) (map_of reg n)"
| "lookup_handler reg v = None"

text \<open>
  Modelled from the spec: \<^verbatim>\<open>validate_and_resolve(payload)\<close> of the missing
  \<^verbatim>\<open>serializers.py\<close>: "read the discriminator value from payload; if missing or not a
  key in the registry, fail with a validation error attributing the failure to the
  discriminator field. Otherwise select the corresponding handler, and run full field
  validation through it (minus the discriminator field)"; the validated data carries the
  discriminator again. The second component of the result lists the handlers that were
  invoked.
\<close>

definition validate_and_resolve ::
  "dispatcher \<Rightarrow> pydict \<Rightarrow> exn + validation \<times> string list" where
  "validate_and_resolve p payload =
     (case map_of payload (resource_type_field_name p) of
        None \<Rightarrow> Inr (Invalid [(resource_type_field_name p, [Required])], [])
      | Some v \<Rightarrow>
          (case lookup_handler (registry p) v of
             None \<Rightarrow> Inr (Invalid [(resource_type_field_name p, [NoMatchingHandler v])], [])
           | Some (name, h) \<Rightarrow>
               (case run_validation h
                       (filter (\<lambda>(k, x). k \<noteq> resource_type_field_name p) payload) of
                  Inl e \<Rightarrow> Inl e
                | Inr (Invalid errs) \<Rightarrow> Inr (Invalid errs, [name])
                | Inr (Valid validated) \<Rightarrow>
                    Inr (Valid (dict_set validated (resource_type_field_name p) v), [name]))))"

text \<open>The handlers of the blog example: each serializes the values of the instance and
  requires the fields of its model.\<close>

definition blog_handler :: "string list \<Rightarrow> handler" where
  "blog_handler required =
     \<lparr> to_representation = (\<lambda>inst. Inr (inst_values inst)),
       run_validation = (\<lambda>d.
         case filter (\<lambda>k. map_of d k = None) required of
           [] \<Rightarrow> Inr (Valid d)
         | missing \<Rightarrow> Inr (Invalid (map (\<lambda>k. (k, [HandlerError ''This field is required.''])) missing))) \<rparr>"

definition blog_registry :: "(string \<times> handler) list" where
  "blog_registry =
     [(''BlogBase'', blog_handler [''name'', ''slug'']),
      (''BlogOne'', blog_handler [''name'', ''slug'', ''info'']),
      (''BlogTwo'', blog_handler [''name'', ''slug''])]"

definition blog_dispatcher :: dispatcher where
  "blog_dispatcher = \<lparr>registry = blog_registry, resource_type_field_name = ''resourcetype''\<rparr>"

section \<open>Sequencing and the pieces of the renderer\<close>


lemma render_super_eq:
  "render_super h s w =
     (case super_render_form_for_serializer h s w of
        Inl e \<Rightarrow> Inl e
      | Inr (form, w') \<Rightarrow> Inr (SingleForm form, w'))"
  by (simp add: render_super_def and_then_def return_def split: sum.splits)










lemma render_form_delegates:
  assumes "getattr_mapping h s w = None \<or> getattr_mapping h s w = Some []"
  shows "render_form_for_serializer h s w =
           (case super_render_form_for_serializer h s w of
              Inl e \<Rightarrow> Inl e
            | Inr (form, w') \<Rightarrow> Inr (SingleForm form, w'))"
  using assms by (auto simp: render_form_for_serializer_def render_super_eq)



lemma lookup_handler_unregistered:
  "v \<notin> PyStr ` fst ` set reg \<Longrightarrow> lookup_handler reg v = None"
  by (cases v) (auto simp: map_of_eq_None_iff image_iff)


section \<open>The renderer's form\<close>









text \<open>
  C4. A serializer with no \<^verbatim>\<open>model_serializer_mapping\<close> attribute: the result of
  \<^verbatim>\<open>render_form_for_serializer\<close> is the result of the base class's method on that
  serializer, its form, its exception and its effect on the world.
\<close>

theorem render_form_non_polymorphic_passthrough:
  assumes "attr_model_serializer_mapping h s w = NoAttr"
  shows "render_form_for_serializer h s w =
           (case super_render_form_for_serializer h s w of
              Inl e \<Rightarrow> Inl e
            | Inr (form, w') \<Rightarrow> Inr (SingleForm form, w'))"
  using assms by (simp add: render_form_delegates getattr_mapping_def)

text \<open>The \<^verbatim>\<open>BlogOneSerializer\<close> of
  \<^verbatim>\<open>test_polymorphic_renderer_non_polymorphic_serializer\<close>.\<close>

theorem render_form_non_polymorphic_passthrough_witness:
  "attr_model_serializer_mapping (blog_host False []) 2 [] = NoAttr
   \<and> render_form_for_serializer (blog_host False []) 2 [] =
       Inr (SingleForm ''<input name=name><input name=slug><input name=info>'', [Rendered 2])"
proof -
  have a: "attr_model_serializer_mapping (blog_host False []) 2 [] = NoAttr"
    by (simp add: blog_host_def)
  from render_form_non_polymorphic_passthrough[OF a] a show ?thesis
    by (simp add: blog_host_def blog_form_def)
qed

text \<open>
  C10. A serializer whose \<^verbatim>\<open>model_serializer_mapping\<close> is an empty dict is rendered as
  a serializer without the attribute is: by the base class, and never as a tuple.
\<close>

theorem render_form_empty_mapping_delegates:
  assumes "attr_model_serializer_mapping h s w = AttrDict []"
  shows "render_form_for_serializer h s w =
           (case super_render_form_for_serializer h s w of
              Inl e \<Rightarrow> Inl e
            | Inr (form, w') \<Rightarrow> Inr (SingleForm form, w'))
         \<and> (\<forall>forms w'. render_form_for_serializer h s w \<noteq> Inr (FormTuple forms, w'))"
proof -
  from assms have "getattr_mapping h s w = Some []"
    by (simp add: getattr_mapping_def)
  then have "render_form_for_serializer h s w =
           (case super_render_form_for_serializer h s w of
              Inl e \<Rightarrow> Inl e
            | Inr (form, w') \<Rightarrow> Inr (SingleForm form, w'))"
    by (simp add: render_form_delegates)
  then show ?thesis
    by (auto split: sum.splits)
qed

theorem render_form_empty_mapping_delegates_witness:
  "attr_model_serializer_mapping (blog_host False []) 4 [] = AttrDict []
   \<and> render_form_for_serializer (blog_host False []) 4 [] =
       Inr (SingleForm ''<form>'', [Rendered 4])"
proof -
  have a: "attr_model_serializer_mapping (blog_host False []) 4 [] = AttrDict []"
    by (simp add: blog_host_def)
  from render_form_empty_mapping_delegates[OF a] a show ?thesis
    by (simp add: blog_host_def blog_form_def)
qed

section \<open>The renderer's context\<close>

text \<open>
  C5. When the base class returns a context (its \<^verbatim>\<open>post_form\<close> entry is \<open>post_form\<close>),
  \<^verbatim>\<open>get_context\<close> returns, in the world the base class left, that context with the
  entry \<^verbatim>\<open>is_polymorphic\<close> set to the boolean "the post form is a tuple of labelled
  forms": false for a single form.
\<close>

theorem get_context_is_polymorphic:
  assumes "super_get_context args w = Inr (ctx, w')" and "ctx ''post_form'' = Some post_form"
  shows "get_context super_get_context args w =
           Inr (ctx(''is_polymorphic'' \<mapsto> CBool (\<exists>forms. post_form = CForm (FormTuple forms))), w')
         \<and> (\<forall>form. post_form = CForm (SingleForm form) \<longrightarrow>
               get_context super_get_context args w =
                 Inr (ctx(''is_polymorphic'' \<mapsto> CBool False), w'))"
proof -
  have "isinstance_tuple post_form = (\<exists>forms. post_form = CForm (FormTuple forms))"
    by (cases post_form rule: isinstance_tuple.cases) auto
  with assms show ?thesis
    by (auto simp: get_context_def and_then_def return_def)
qed

theorem get_context_is_polymorphic_witness:
  "get_context (blog_context (FormTuple blog_forms)) () [] =
     Inr ([''name'' \<mapsto> COpaque ''Blog List'', ''post_form'' \<mapsto> CForm (FormTuple blog_forms),
           ''put_form'' \<mapsto> CNone, ''is_polymorphic'' \<mapsto> CBool True], [])
   \<and> get_context (blog_context (SingleForm (blog_form 2))) () [] =
     Inr ([''name'' \<mapsto> COpaque ''Blog List'', ''post_form'' \<mapsto> CForm (SingleForm (blog_form 2)),
           ''put_form'' \<mapsto> CNone, ''is_polymorphic'' \<mapsto> CBool False], [])"
proof -
  have t: "blog_context (FormTuple blog_forms) () [] =
             Inr ([''name'' \<mapsto> COpaque ''Blog List'', ''post_form'' \<mapsto> CForm (FormTuple blog_forms),
                   ''put_form'' \<mapsto> CNone], [])"
    by (simp add: blog_context_def return_def)
  have s: "blog_context (SingleForm (blog_form 2)) () [] =
             Inr ([''name'' \<mapsto> COpaque ''Blog List'', ''post_form'' \<mapsto> CForm (SingleForm (blog_form 2)),
                   ''put_form'' \<mapsto> CNone], [])"
    by (simp add: blog_context_def return_def)
  from get_context_is_polymorphic
         [where super_get_context = "blog_context (FormTuple blog_forms)" and args = "()",
          OF t, of "CForm (FormTuple blog_forms)"]
       get_context_is_polymorphic
         [where super_get_context = "blog_context (SingleForm (blog_form 2))" and args = "()",
          OF s, of "CForm (SingleForm (blog_form 2))"]
  show ?thesis by simp
qed

text \<open>
  C9. When the base class returns a context with a \<^verbatim>\<open>post_form\<close> entry,
  \<^verbatim>\<open>get_context\<close> returns that context with the key \<^verbatim>\<open>is_polymorphic\<close> set: every
  other key has the value the base class gave it, no other key is added or removed,
  and the world is the one the base class left.
\<close>

theorem get_context_frame:
  assumes "super_get_context args w = Inr (ctx, w')" and "ctx ''post_form'' = Some post_form"
  shows "\<exists>ctx'. get_context super_get_context args w = Inr (ctx', w')
           \<and> (\<forall>k. k \<noteq> ''is_polymorphic'' \<longrightarrow> ctx' k = ctx k)
           \<and> dom ctx' = insert ''is_polymorphic'' (dom ctx)"
  using assms by (auto simp: get_context_def and_then_def return_def)

theorem get_context_frame_witness:
  "\<exists>ctx'. get_context (blog_context (FormTuple blog_forms)) () [] = Inr (ctx', [])
     \<and> ctx' ''name'' = Some (COpaque ''Blog List'')
     \<and> ctx' ''post_form'' = Some (CForm (FormTuple blog_forms))
     \<and> ctx' ''put_form'' = Some CNone
     \<and> dom ctx' = {''is_polymorphic'', ''name'', ''post_form'', ''put_form''}"
proof -
  have t: "blog_context (FormTuple blog_forms) () [] =
             Inr ([''name'' \<mapsto> COpaque ''Blog List'', ''post_form'' \<mapsto> CForm (FormTuple blog_forms),
                   ''put_form'' \<mapsto> CNone], [])"
    by (simp add: blog_context_def return_def)
  from get_context_frame
         [where super_get_context = "blog_context (FormTuple blog_forms)" and args = "()",
          OF t, of "CForm (FormTuple blog_forms)"]
  obtain ctx' where
    g: "get_context (blog_context (FormTuple blog_forms)) () [] = Inr (ctx', [])" and
    f: "\<forall>k. k \<noteq> ''is_polymorphic'' \<longrightarrow>
          ctx' k = [''name'' \<mapsto> COpaque ''Blog List'',
                    ''post_form'' \<mapsto> CForm (FormTuple blog_forms), ''put_form'' \<mapsto> CNone] k" and
    d: "dom ctx' = insert ''is_polymorphic''
          (dom [''name'' \<mapsto> COpaque ''Blog List'',
                ''post_form'' \<mapsto> CForm (FormTuple blog_forms), ''put_form'' \<mapsto> CNone])"
    by auto
  from f have "ctx' ''name'' = Some (COpaque ''Blog List'')"
    "ctx' ''post_form'' = Some (CForm (FormTuple blog_forms))"
    "ctx' ''put_form'' = Some CNone"
    by simp_all
  moreover from d have "dom ctx' = {''is_polymorphic'', ''name'', ''post_form'', ''put_form''}"
    by auto
  ultimately show ?thesis using g by blast
qed

section \<open>The dispatcher\<close>



text \<open>
  C7. A payload without the discriminator field, or whose discriminator value is not a
  key of the registry: the validate step returns (it raises nothing) an invalid result
  with one error, on the discriminator field, "required" for the missing field and "no
  matching handler" for the unknown value, and no handler was invoked.
\<close>

theorem validate_unresolved_discriminator:
  "(map_of payload (resource_type_field_name p) = None \<longrightarrow>
      validate_and_resolve p payload =
        Inr (Invalid [(resource_type_field_name p, [Required])], []))
   \<and> (\<forall>v. map_of payload (resource_type_field_name p) = Some v
          \<and> v \<notin> PyStr ` fst ` set (registry p) \<longrightarrow>
      validate_and_resolve p payload =
        Inr (Invalid [(resource_type_field_name p, [NoMatchingHandler v])], []))"
  by (auto simp: validate_and_resolve_def lookup_handler_unregistered)

text \<open>The payload of \<^verbatim>\<open>test_deserialize_with_invalid_resourcetype\<close>, and the same
  payload without its discriminator.\<close>

theorem validate_unresolved_discriminator_witness:
  "validate_and_resolve blog_dispatcher [(''name'', PyStr ''blog'')] =
     Inr (Invalid [(''resourcetype'', [Required])], [])
   \<and> validate_and_resolve blog_dispatcher
       [(''name'', PyStr ''blog''), (''resourcetype'', PyStr ''Invalid'')] =
     Inr (Invalid [(''resourcetype'', [NoMatchingHandler (PyStr ''Invalid'')])], [])"
proof -
  have f: "resource_type_field_name blog_dispatcher = ''resourcetype''"
    by (simp add: blog_dispatcher_def)
  have a: "map_of [(''name'', PyStr ''blog'')] (resource_type_field_name blog_dispatcher) = None"
    by (simp add: f)
  have b: "map_of [(''name'', PyStr ''blog''), (''resourcetype'', PyStr ''Invalid'')]
             (resource_type_field_name blog_dispatcher) = Some (PyStr ''Invalid'')
           \<and> PyStr ''Invalid'' \<notin> PyStr ` fst ` set (registry blog_dispatcher)"
    by (simp add: blog_dispatcher_def blog_registry_def)
  from validate_unresolved_discriminator[of "[(''name'', PyStr ''blog'')]" blog_dispatcher] a
  have "validate_and_resolve blog_dispatcher [(''name'', PyStr ''blog'')] =
          Inr (Invalid [(''resourcetype'', [Required])], [])"
    by (simp add: f)
  moreover
  from validate_unresolved_discriminator
         [of "[(''name'', PyStr ''blog''), (''resourcetype'', PyStr ''Invalid'')]" blog_dispatcher] b
  have "validate_and_resolve blog_dispatcher
          [(''name'', PyStr ''blog''), (''resourcetype'', PyStr ''Invalid'')] =
        Inr (Invalid [(''resourcetype'', [NoMatchingHandler (PyStr ''Invalid'')])], [])"
    by (simp add: f)
  ultimately show ?thesis by simp
qed

text \<open>
  C8. Construction fails with the message of the missing registry when the registry is
  absent or empty, and with the message of the field name when the registry is not
  empty and the field name is not a string; both messages depend on the name of the
  class only. With a registry that is not empty and a field name that is a string or
  left to its default, construction returns the dispatcher.
\<close>

theorem construct_checks_configuration:
  "(reg = None \<or> reg = Some [] \<longrightarrow>
      construct cls reg fld = Inl (ImproperlyConfigured (missing_mapping_message cls)))
   \<and> (\<forall>r v. reg = Some r \<and> r \<noteq> [] \<and> fld = Some v \<and> (\<forall>f. v \<noteq> PyStr f) \<longrightarrow>
      construct cls reg fld = Inl (ImproperlyConfigured (not_string_message cls)))
   \<and> (\<forall>r. reg = Some r \<and> r \<noteq> [] \<and> fld = None \<longrightarrow>
      construct cls reg fld =
        Inr \<lparr>registry = r, resource_type_field_name = ''resourcetype''\<rparr>)
   \<and> (\<forall>r f. reg = Some r \<and> r \<noteq> [] \<and> fld = Some (PyStr f) \<longrightarrow>
      construct cls reg fld = Inr \<lparr>registry = r, resource_type_field_name = f\<rparr>)"
  by (auto simp: construct_def split: list.splits pyval.splits)

text \<open>The two classes of the tests, with the messages the tests expect, and the blog
  dispatcher.\<close>

theorem construct_checks_configuration_witness:
  "construct ''EmptyPolymorphicSerializer'' None None =
     Inl (ImproperlyConfigured
       ''`EmptyPolymorphicSerializer` is missing a `EmptyPolymorphicSerializer.model_serializer_mapping` attribute'')
   \<and> construct ''NotStringPolymorphicSerializer'' (Some blog_registry) (Some (PyInt 1)) =
     Inl (ImproperlyConfigured
       ''`NotStringPolymorphicSerializer.resource_type_field_name` must be a string'')
   \<and> construct ''BlogPolymorphicSerializer'' (Some blog_registry) None = Inr blog_dispatcher"
proof -
  have ne: "blog_registry \<noteq> []"
    by (simp add: blog_registry_def)
  from construct_checks_configuration[of None "''EmptyPolymorphicSerializer''" None]
  have a: "construct ''EmptyPolymorphicSerializer'' None None =
             Inl (ImproperlyConfigured (missing_mapping_message ''EmptyPolymorphicSerializer''))"
    by simp
  from construct_checks_configuration
         [of "Some blog_registry" "''NotStringPolymorphicSerializer''" "Some (PyInt 1)"] ne
  have b: "construct ''NotStringPolymorphicSerializer'' (Some blog_registry) (Some (PyInt 1)) =
             Inl (ImproperlyConfigured (not_string_message ''NotStringPolymorphicSerializer''))"
    by simp
  from construct_checks_configuration
         [of "Some blog_registry" "''BlogPolymorphicSerializer''" None] ne
  have c: "construct ''BlogPolymorphicSerializer'' (Some blog_registry) None = Inr blog_dispatcher"
    by (simp add: blog_dispatcher_def)
  from a b c show ?thesis
    by (simp add: missing_mapping_message_def not_string_message_def)
qed

end
